theory Spec2Isabelle
  imports Main "HOL-Library.Sublist"
begin

section \<open>The request handler of \<^verbatim>\<open>src/main.py\<close>\<close>

text \<open>
  \<^verbatim>\<open>HttpHandler\<close> has three methods: \<^verbatim>\<open>do_GET\<close> routes on the parsed path,
  \<^verbatim>\<open>send_html_file\<close> writes a header block and then a file, and \<^verbatim>\<open>send_static\<close>
  opens a file first and writes the header block only once the file is open.

  What the methods do to the connection is recorded as the sequence of calls they make
  on the response-writing primitives of \<^verbatim>\<open>BaseHTTPRequestHandler\<close>
  (\<^verbatim>\<open>send_response\<close>, \<^verbatim>\<open>send_header\<close>, \<^verbatim>\<open>end_headers\<close>, \<^verbatim>\<open>wfile.write\<close>), in order.
  The bytes those primitives put on the socket (among them the \<^verbatim>\<open>Server\<close> and
  \<^verbatim>\<open>Date\<close> headers that \<^verbatim>\<open>send_response\<close> adds by itself) are given by \<open>wire\<close>
  further down. The primitives are taken to succeed: the failures modelled are those of
  \<^verbatim>\<open>open\<close> and \<^verbatim>\<open>read\<close>.
\<close>

subsection \<open>Data\<close>

type_synonym bytes = string

text \<open>
  One call on the connection. \<open>SendResponse s\<close> is \<^verbatim>\<open>self.send_response(s)\<close>, that is
  one status line; \<open>SendHeader k v\<close> is \<^verbatim>\<open>self.send_header(k, v)\<close>; \<open>EndHeaders\<close> is
  \<^verbatim>\<open>self.end_headers()\<close>, the blank line; \<open>WfileWrite b\<close> is \<^verbatim>\<open>self.wfile.write(b)\<close>.
\<close>

datatype conn_call =
    SendResponse nat
  | SendHeader string string
  | EndHeaders
  | WfileWrite bytes

text \<open>
  What \<^verbatim>\<open>with open(name, 'rb') as file: ... file.read()\<close> can do: \<^verbatim>\<open>open\<close> raises,
  \<^verbatim>\<open>open\<close> succeeds and \<^verbatim>\<open>read\<close> raises, or \<^verbatim>\<open>read\<close> returns the bytes. The file
  system is a function from the path string handed to \<^verbatim>\<open>open\<close> to one of these.
\<close>

datatype file_result = OpenFails | ReadFails | Contents bytes

type_synonym filesystem = "string \<Rightarrow> file_result"

text \<open>
  The handler object: \<^verbatim>\<open>self.path\<close> is the request target as it stands in the request
  line, \<open>wfile\<close> the calls made on the connection so far. \<open>opened\<close> is a log of the
  path strings passed to \<^verbatim>\<open>open\<close>, kept so that a theorem can say which file a call
  resolves.
\<close>

record http_handler =
  path :: string
  wfile :: "conn_call list"
  opened :: "string list"

text \<open>
  The two standard-library functions the handler calls are parameters of the model:
  \<open>urlparse_path u\<close> stands for \<^verbatim>\<open>urllib.parse.urlparse(u).path\<close> and \<open>guess_type p\<close>
  for the first component of \<^verbatim>\<open>mimetypes.guess_type(p)\<close> (\<open>None\<close> when the table has
  no entry). Both are taken to return normally.
\<close>

record stdlib =
  urlparse_path :: "string \<Rightarrow> string"
  guess_type :: "string \<Rightarrow> string option"

subsection \<open>The methods\<close>

text \<open>Python's \<^verbatim>\<open>mime_type or 'application/octet-stream'\<close>: \<^verbatim>\<open>None\<close> and the empty
  string are falsy.\<close>

definition or_default :: "string option \<Rightarrow> string \<Rightarrow> string" where
  "or_default m d = (case m of None \<Rightarrow> d | Some s \<Rightarrow> if s = [] then d else s)"

text \<open>The three calls of lines 71 to 78: status line, Content-type header, end of headers.\<close>

definition html_headers :: "nat \<Rightarrow> conn_call list" where
  "html_headers status =
     [SendResponse status, SendHeader ''Content-type'' ''text/html'', EndHeaders]"

text \<open>
  \<^verbatim>\<open>send_html_file(self, filename, status=200)\<close>, lines 65 to 89. The header block is
  written before the \<^verbatim>\<open>try\<close>; any exception of \<^verbatim>\<open>open\<close> or \<^verbatim>\<open>read\<close> is caught and
  answered by calling the method again with \<^verbatim>\<open>'error.html'\<close> and 404. The recursion has
  no bound in the source, so the function is partial: \<open>None\<close> is a call that never
  returns.
\<close>

partial_function (option) send_html_file ::
  "filesystem \<Rightarrow> string \<Rightarrow> nat \<Rightarrow> http_handler \<Rightarrow> http_handler option" where
  "send_html_file fs filename status self =
     (case fs filename of
        Contents content \<Rightarrow>
          Some (self\<lparr>wfile := wfile self @ html_headers status @ [WfileWrite content],
                     opened := opened self @ [filename]\<rparr>)
      | OpenFails \<Rightarrow>
          send_html_file fs ''error.html'' 404
            (self\<lparr>wfile := wfile self @ html_headers status,
                  opened := opened self @ [filename]\<rparr>)
      | ReadFails \<Rightarrow>
          send_html_file fs ''error.html'' 404
            (self\<lparr>wfile := wfile self @ html_headers status,
                  opened := opened self @ [filename]\<rparr>))"

text \<open>
  CPython bounds the depth of the call stack: a call beyond the recursion limit raises
  \<^verbatim>\<open>RecursionError\<close>. Here the recursive call stands in an \<^verbatim>\<open>except\<close> block, so the
  exception is not caught by any of the enclosing calls and leaves \<^verbatim>\<open>send_html_file\<close>
  with everything written so far on the connection. \<open>send_html_file_limit depth\<close> is the
  method run with room for \<open>depth\<close> nested calls.
\<close>

datatype outcome = Returned http_handler | RecursionError http_handler

fun send_html_file_limit ::
  "nat \<Rightarrow> filesystem \<Rightarrow> string \<Rightarrow> nat \<Rightarrow> http_handler \<Rightarrow> outcome" where
  "send_html_file_limit 0 fs filename status self = RecursionError self"
| "send_html_file_limit (Suc depth) fs filename status self =
     (case fs filename of
        Contents content \<Rightarrow>
          Returned (self\<lparr>wfile := wfile self @ html_headers status @ [WfileWrite content],
                         opened := opened self @ [filename]\<rparr>)
      | OpenFails \<Rightarrow>
          send_html_file_limit depth fs ''error.html'' 404
            (self\<lparr>wfile := wfile self @ html_headers status,
                  opened := opened self @ [filename]\<rparr>)
      | ReadFails \<Rightarrow>
          send_html_file_limit depth fs ''error.html'' 404
            (self\<lparr>wfile := wfile self @ html_headers status,
                  opened := opened self @ [filename]\<rparr>))"

text \<open>
  \<^verbatim>\<open>send_static(self)\<close>, lines 91 to 127. The file path is \<^verbatim>\<open>self.path[1:]\<close>, the raw
  request target without its first character. The header block is written inside the
  \<^verbatim>\<open>with\<close>, so after \<^verbatim>\<open>open\<close> has succeeded and before \<^verbatim>\<open>read\<close> is called.
\<close>

definition send_static :: "stdlib \<Rightarrow> filesystem \<Rightarrow> http_handler \<Rightarrow> http_handler option" where
  "send_static lib fs self =
     (let file_path = drop 1 (path self);
          mime_type = guess_type lib file_path;
          headers = [SendResponse 200,
                     SendHeader ''Content-type'' (or_default mime_type ''application/octet-stream''),
                     EndHeaders]
      in case fs file_path of
           Contents content \<Rightarrow>
             Some (self\<lparr>wfile := wfile self @ headers @ [WfileWrite content],
                        opened := opened self @ [file_path]\<rparr>)
         | OpenFails \<Rightarrow>
             send_html_file fs ''error.html'' 404
               (self\<lparr>opened := opened self @ [file_path]\<rparr>)
         | ReadFails \<Rightarrow>
             send_html_file fs ''error.html'' 404
               (self\<lparr>wfile := wfile self @ headers,
                     opened := opened self @ [file_path]\<rparr>))"

text \<open>\<^verbatim>\<open>do_GET(self)\<close>, lines 29 to 63: the routing, on the parsed path.\<close>

definition do_GET :: "stdlib \<Rightarrow> filesystem \<Rightarrow> http_handler \<Rightarrow> http_handler option" where
  "do_GET lib fs self =
     (let pr_url_path = urlparse_path lib (path self)
      in if pr_url_path = ''/'' then send_html_file fs ''templates/index.html'' 200 self
         else if pr_url_path = ''/search'' then send_html_file fs ''templates/search.html'' 200 self
         else if prefix ''/static/'' pr_url_path then send_static lib fs self
         else send_html_file fs ''templates/error.html'' 200 self)"

text \<open>
  One request: the listener builds a handler for the request target, with nothing
  written yet, and calls \<^verbatim>\<open>do_GET\<close> once. \<open>handle\<close> is the name the specification
  gives to this.
\<close>

definition new_handler :: "string \<Rightarrow> http_handler" where
  "new_handler target = \<lparr>path = target, wfile = [], opened = []\<rparr>"

definition handle :: "stdlib \<Rightarrow> filesystem \<Rightarrow> string \<Rightarrow> http_handler option" where
  "handle lib fs target = do_GET lib fs (new_handler target)"


subsection \<open>A concrete standard library and disk, for evaluating the handler\<close>

text \<open>
  The theorems below hold for every \<open>stdlib\<close> and every \<open>filesystem\<close>. To run the
  handler on concrete requests the two library functions are given the following
  definitions, which follow \<^verbatim>\<open>urllib.parse\<close> and \<^verbatim>\<open>mimetypes\<close> on request targets in
  origin form (a path beginning with one slash, then an optional query and fragment).

  \<^verbatim>\<open>urlsplit\<close> cuts the fragment at the first \<^verbatim>\<open>#\<close>, then the query at the first
  \<^verbatim>\<open>?\<close>; \<^verbatim>\<open>urlparse\<close> then cuts the parameters at the first \<^verbatim>\<open>;\<close> of the last path
  segment (\<^verbatim>\<open>_splitparams\<close>).
\<close>

definition splitparams :: "string \<Rightarrow> string" where
  "splitparams url =
     (let last_segment = rev (takeWhile (\<lambda>c. c \<noteq> CHR ''/'') (rev url));
          front = rev (dropWhile (\<lambda>c. c \<noteq> CHR ''/'') (rev url))
      in front @ takeWhile (\<lambda>c. c \<noteq> CHR '';'') last_segment)"

definition urlparse_path_std :: "string \<Rightarrow> string" where
  "urlparse_path_std url =
     splitparams (takeWhile (\<lambda>c. c \<noteq> CHR ''?'') (takeWhile (\<lambda>c. c \<noteq> CHR ''#'') url))"

text \<open>
  \<^verbatim>\<open>posixpath.splitext\<close>: the extension starts at the last dot of the last path
  component, leading dots of that component not counted.
\<close>

definition splitext_ext :: "string \<Rightarrow> string" where
  "splitext_ext p =
     (let name = dropWhile (\<lambda>c. c = CHR ''.'') (rev (takeWhile (\<lambda>c. c \<noteq> CHR ''/'') (rev p)))
      in if CHR ''.'' \<in> set name
         then CHR ''.'' # rev (takeWhile (\<lambda>c. c \<noteq> CHR ''.'') (rev name))
         else [])"

text \<open>The four entries of the extension table that the source's comments name
  (lines 13 to 16 and 103 to 105).\<close>

definition types_map :: "(string \<times> string) list" where
  "types_map =
     [(''.html'', ''text/html''),
      (''.css'', ''text/css''),
      (''.jpg'', ''image/jpeg''),
      (''.js'', ''application/javascript'')]"

definition guess_type_std :: "string \<Rightarrow> string option" where
  "guess_type_std p = map_of types_map (splitext_ext p)"

definition lib_std :: stdlib where
  "lib_std = \<lparr>urlparse_path = urlparse_path_std, guess_type = guess_type_std\<rparr>"

text \<open>
  A disk holds files under normalised paths (lists of components). \<^verbatim>\<open>open\<close> resolves the
  path string it is given the way the operating system does: empty and \<^verbatim>\<open>.\<close>
  components are skipped and \<^verbatim>\<open>..\<close> steps back to the parent directory.
\<close>

fun split_slash :: "string \<Rightarrow> string list" where
  "split_slash [] = [[]]"
| "split_slash (c # cs) =
     (if c = CHR ''/'' then [] # split_slash cs
      else (case split_slash cs of
              [] \<Rightarrow> [[c]]
            | w # ws \<Rightarrow> (c # w) # ws))"

fun resolve :: "string list \<Rightarrow> string list \<Rightarrow> string list" where
  "resolve [] stack = rev stack"
| "resolve (s # ss) stack =
     (if s = [] \<or> s = ''.'' then resolve ss stack
      else if s = ''..'' then resolve ss (tl stack)
      else resolve ss (s # stack))"

definition normpath :: "string \<Rightarrow> string list" where
  "normpath p = resolve (split_slash p) []"

text \<open>A resolved path lies in the \<^verbatim>\<open>static/\<close> directory tree when its first component is
  \<^verbatim>\<open>static\<close>.\<close>

definition under_static :: "string list \<Rightarrow> bool" where
  "under_static segs = (case segs of [] \<Rightarrow> False | d # rest \<Rightarrow> d = ''static'')"

type_synonym disk = "(string list \<times> bytes) list"

definition open_on :: "disk \<Rightarrow> filesystem" where
  "open_on d p = (case map_of d (normpath p) of None \<Rightarrow> OpenFails | Some b \<Rightarrow> Contents b)"

text \<open>The layout of section 6 of the specification, with two static assets and one file
  outside \<^verbatim>\<open>static/\<close>.\<close>

definition site :: disk where
  "site =
     [([''templates'', ''index.html''], ''<h1>home</h1>''),
      ([''templates'', ''search.html''], ''<h1>search</h1>''),
      ([''templates'', ''error.html''], ''<h1>not found</h1>''),
      ([''static'', ''style.css''], ''body {}''),
      ([''static'', ''app.js''], ''console.log(1);''),
      ([''static'', ''unknownext.xyz''], ''xyz''),
      ([''x''], ''outside'')]"

text \<open>The same layout with a second error page \<^verbatim>\<open>error.html\<close> in the project root.\<close>

definition site_with_root_error :: disk where
  "site_with_root_error = ([''error.html''], ''<h1>root error</h1>'') # site"

text \<open>A disk that holds nothing but \<^verbatim>\<open>error.html\<close> in the project root: every template
  and every static file is missing.\<close>

definition only_root_error :: disk where
  "only_root_error = [([''error.html''], ''<h1>root error</h1>'')]"

subsection \<open>One call after another\<close>





subsection \<open>The static-file handler under the recursion limit\<close>

text \<open>\<^verbatim>\<open>send_static\<close> with room for \<open>depth\<close> nested calls of \<^verbatim>\<open>send_html_file\<close> in its
  fallback.\<close>

definition send_static_limit ::
  "nat \<Rightarrow> stdlib \<Rightarrow> filesystem \<Rightarrow> http_handler \<Rightarrow> outcome" where
  "send_static_limit depth lib fs self =
     (let file_path = drop 1 (path self);
          mime_type = guess_type lib file_path;
          headers = [SendResponse 200,
                     SendHeader ''Content-type'' (or_default mime_type ''application/octet-stream''),
                     EndHeaders]
      in case fs file_path of
           Contents content \<Rightarrow>
             Returned (self\<lparr>wfile := wfile self @ headers @ [WfileWrite content],
                            opened := opened self @ [file_path]\<rparr>)
         | OpenFails \<Rightarrow>
             send_html_file_limit depth fs ''error.html'' 404
               (self\<lparr>opened := opened self @ [file_path]\<rparr>)
         | ReadFails \<Rightarrow>
             send_html_file_limit depth fs ''error.html'' 404
               (self\<lparr>wfile := wfile self @ headers,
                     opened := opened self @ [file_path]\<rparr>))"

subsection \<open>The bytes on the connection\<close>












section \<open>Properties\<close>

subsection \<open>The HTML-file handler: success, fallback, and the call that never returns\<close>

lemma send_html_file_ok:
  "fs filename = Contents content \<Longrightarrow>
   send_html_file fs filename status self =
     Some (self\<lparr>wfile := wfile self @ html_headers status @ [WfileWrite content],
                opened := opened self @ [filename]\<rparr>)"
  by (subst send_html_file.simps) simp

lemma send_html_file_retry:
  "(\<forall>c. fs filename \<noteq> Contents c) \<Longrightarrow>
   send_html_file fs filename status self =
     send_html_file fs ''error.html'' 404
       (self\<lparr>wfile := wfile self @ html_headers status,
             opened := opened self @ [filename]\<rparr>)"
  by (subst send_html_file.simps) (cases "fs filename"; simp)

lemma send_html_file_fallback:
  "(\<forall>c. fs filename \<noteq> Contents c) \<Longrightarrow> fs ''error.html'' = Contents e \<Longrightarrow>
   send_html_file fs filename status self =
     Some (self\<lparr>wfile := wfile self @ html_headers status @ html_headers 404 @ [WfileWrite e],
                opened := opened self @ [filename, ''error.html'']\<rparr>)"
  by (simp add: send_html_file_retry send_html_file_ok)

lemma send_html_file_returns_only_if:
  assumes "send_html_file fs filename status self = Some r"
  shows "(\<exists>c. fs filename = Contents c) \<or> (\<exists>c. fs ''error.html'' = Contents c)"
proof (rule send_html_file.raw_induct
    [where P = "\<lambda>fs filename status self r.
       (\<exists>c. fs filename = Contents c) \<or> (\<exists>c. fs ''error.html'' = Contents c)",
     OF _ assms])
  fix rec :: "filesystem \<Rightarrow> string \<Rightarrow> nat \<Rightarrow> http_handler \<Rightarrow> http_handler option"
    and fs :: filesystem and filename :: string and status :: nat
    and self r :: http_handler
  let ?retry = "rec fs ''error.html'' 404
                  (self\<lparr>wfile := wfile self @ html_headers status,
                        opened := opened self @ [filename]\<rparr>)"
  assume IH: "\<And>fs filename status self r. rec fs filename status self = Some r \<Longrightarrow>
     (\<exists>c. fs filename = Contents c) \<or> (\<exists>c. fs ''error.html'' = Contents c)"
  assume body: "(case fs filename of
        Contents content \<Rightarrow>
          Some (self\<lparr>wfile := wfile self @ html_headers status @ [WfileWrite content],
                     opened := opened self @ [filename]\<rparr>)
      | OpenFails \<Rightarrow> ?retry
      | ReadFails \<Rightarrow> ?retry) = Some r"
  show "(\<exists>c. fs filename = Contents c) \<or> (\<exists>c. fs ''error.html'' = Contents c)"
  proof (cases "fs filename")
    case (Contents c)
    then show ?thesis by simp
  next
    case OpenFails
    with body have "?retry = Some r" by simp
    from IH [OF this] show ?thesis by simp
  next
    case ReadFails
    with body have "?retry = Some r" by simp
    from IH [OF this] show ?thesis by simp
  qed
qed

lemma send_html_file_diverges:
  "(\<forall>c. fs filename \<noteq> Contents c) \<Longrightarrow> (\<forall>c. fs ''error.html'' \<noteq> Contents c) \<Longrightarrow>
   send_html_file fs filename status self = None"
  using send_html_file_returns_only_if [of fs filename status self]
  by (cases "send_html_file fs filename status self") auto

subsection \<open>The static-file handler, by what \<^verbatim>\<open>open\<close> and \<^verbatim>\<open>read\<close> do\<close>

lemma send_static_ok:
  "fs (drop 1 (path self)) = Contents content \<Longrightarrow>
   send_static lib fs self =
     Some (self\<lparr>wfile := wfile self @
                  [SendResponse 200,
                   SendHeader ''Content-type''
                     (or_default (guess_type lib (drop 1 (path self))) ''application/octet-stream''),
                   EndHeaders, WfileWrite content],
                opened := opened self @ [drop 1 (path self)]\<rparr>)"
  by (simp add: send_static_def Let_def)

lemma send_static_open_fails:
  "fs (drop 1 (path self)) = OpenFails \<Longrightarrow>
   send_static lib fs self =
     send_html_file fs ''error.html'' 404 (self\<lparr>opened := opened self @ [drop 1 (path self)]\<rparr>)"
  by (simp add: send_static_def Let_def)

lemma send_static_read_fails:
  "fs (drop 1 (path self)) = ReadFails \<Longrightarrow>
   send_static lib fs self =
     send_html_file fs ''error.html'' 404
       (self\<lparr>wfile := wfile self @
                  [SendResponse 200,
                   SendHeader ''Content-type''
                     (or_default (guess_type lib (drop 1 (path self))) ''application/octet-stream''),
                   EndHeaders],
             opened := opened self @ [drop 1 (path self)]\<rparr>)"
  by (simp add: send_static_def Let_def)

subsection \<open>Evaluating the concrete library and disks\<close>

lemma urlparse_path_lib_std [simp]: "urlparse_path lib_std = urlparse_path_std"
  and guess_type_lib_std [simp]: "guess_type lib_std = guess_type_std"
  by (simp_all add: lib_std_def)

lemmas std_eval = urlparse_path_std_def splitparams_def splitext_ext_def guess_type_std_def
  types_map_def normpath_def open_on_def site_def site_with_root_error_def only_root_error_def
  under_static_def
  new_handler_def html_headers_def or_default_def

subsection \<open>The home page and the search page\<close>

text \<open>
  Claim C8. A request whose parsed path is \<^verbatim>\<open>/\<close> is answered with the contents of
  \<^verbatim>\<open>templates/index.html\<close>, status 200 and Content-type \<^verbatim>\<open>text/html\<close>, when that
  file can be read; a request whose parsed path is \<^verbatim>\<open>/search\<close> likewise with
  \<^verbatim>\<open>templates/search.html\<close>, when that file can be read. Each page depends on its own
  file only. Nothing else is written and no other file is opened.
\<close>

theorem home_and_search_pages:
  "(urlparse_path lib target = ''/'' \<and> fs ''templates/index.html'' = Contents home \<longrightarrow>
      handle lib fs target =
        Some \<lparr>path = target,
              wfile = [SendResponse 200, SendHeader ''Content-type'' ''text/html'',
                       EndHeaders, WfileWrite home],
              opened = [''templates/index.html'']\<rparr>)
   \<and> (urlparse_path lib target = ''/search'' \<and> fs ''templates/search.html'' = Contents search \<longrightarrow>
      handle lib fs target =
        Some \<lparr>path = target,
              wfile = [SendResponse 200, SendHeader ''Content-type'' ''text/html'',
                       EndHeaders, WfileWrite search],
              opened = [''templates/search.html'']\<rparr>)"
  by (simp add: handle_def do_GET_def new_handler_def send_html_file_ok html_headers_def)

theorem home_and_search_pages_witness:
  "handle lib_std (open_on site) ''/'' =
     Some \<lparr>path = ''/'',
           wfile = [SendResponse 200, SendHeader ''Content-type'' ''text/html'',
                    EndHeaders, WfileWrite ''<h1>home</h1>''],
           opened = [''templates/index.html'']\<rparr>
   \<and> handle lib_std (open_on site) ''/search'' =
     Some \<lparr>path = ''/search'',
           wfile = [SendResponse 200, SendHeader ''Content-type'' ''text/html'',
                    EndHeaders, WfileWrite ''<h1>search</h1>''],
           opened = [''templates/search.html'']\<rparr>
   \<and> handle lib_std (open_on [([''templates'', ''index.html''], ''<h1>home</h1>'')]) ''/'' =
     Some \<lparr>path = ''/'',
           wfile = [SendResponse 200, SendHeader ''Content-type'' ''text/html'',
                    EndHeaders, WfileWrite ''<h1>home</h1>''],
           opened = [''templates/index.html'']\<rparr>
   \<and> handle lib_std (open_on [([''templates'', ''search.html''], ''<h1>search</h1>'')]) ''/search'' =
     Some \<lparr>path = ''/search'',
           wfile = [SendResponse 200, SendHeader ''Content-type'' ''text/html'',
                    EndHeaders, WfileWrite ''<h1>search</h1>''],
           opened = [''templates/search.html'']\<rparr>"
proof -
  let ?home_only = "open_on [([''templates'', ''index.html''], ''<h1>home</h1>'')]"
  let ?search_only = "open_on [([''templates'', ''search.html''], ''<h1>search</h1>'')]"
  have i: "open_on site ''templates/index.html'' = Contents ''<h1>home</h1>''"
    and i': "?home_only ''templates/index.html'' = Contents ''<h1>home</h1>''"
    by (simp_all add: std_eval)
  have s: "open_on site ''templates/search.html'' = Contents ''<h1>search</h1>''"
    and s': "?search_only ''templates/search.html'' = Contents ''<h1>search</h1>''"
    by (simp_all add: std_eval)
  have p1: "urlparse_path lib_std ''/'' = ''/''"
    and p2: "urlparse_path lib_std ''/search'' = ''/search''"
    by (simp_all add: std_eval)
  from home_and_search_pages
         [where lib = lib_std and target = "''/''" and fs = "open_on site"
            and home = "''<h1>home</h1>''"] p1 i
  have a: "handle lib_std (open_on site) ''/'' =
     Some \<lparr>path = ''/'',
           wfile = [SendResponse 200, SendHeader ''Content-type'' ''text/html'',
                    EndHeaders, WfileWrite ''<h1>home</h1>''],
           opened = [''templates/index.html'']\<rparr>"
    by blast
  from home_and_search_pages
         [where lib = lib_std and target = "''/search''" and fs = "open_on site"
            and search = "''<h1>search</h1>''"] p2 s
  have b: "handle lib_std (open_on site) ''/search'' =
     Some \<lparr>path = ''/search'',
           wfile = [SendResponse 200, SendHeader ''Content-type'' ''text/html'',
                    EndHeaders, WfileWrite ''<h1>search</h1>''],
           opened = [''templates/search.html'']\<rparr>"
    by blast
  from home_and_search_pages
         [where lib = lib_std and target = "''/''" and fs = ?home_only
            and home = "''<h1>home</h1>''"] p1 i'
  have c: "handle lib_std ?home_only ''/'' =
     Some \<lparr>path = ''/'',
           wfile = [SendResponse 200, SendHeader ''Content-type'' ''text/html'',
                    EndHeaders, WfileWrite ''<h1>home</h1>''],
           opened = [''templates/index.html'']\<rparr>"
    by blast
  from home_and_search_pages
         [where lib = lib_std and target = "''/search''" and fs = ?search_only
            and search = "''<h1>search</h1>''"] p2 s'
  have d: "handle lib_std ?search_only ''/search'' =
     Some \<lparr>path = ''/search'',
           wfile = [SendResponse 200, SendHeader ''Content-type'' ''text/html'',
                    EndHeaders, WfileWrite ''<h1>search</h1>''],
           opened = [''templates/search.html'']\<rparr>"
    by blast
  from a b c d show ?thesis by simp
qed

subsection \<open>Paths that match no route\<close>

text \<open>
  Claim C2. A request whose parsed path is neither \<^verbatim>\<open>/\<close> nor \<^verbatim>\<open>/search\<close> and does not
  begin with \<^verbatim>\<open>/static/\<close> is answered with the contents of \<^verbatim>\<open>templates/error.html\<close>,
  status 200 and Content-type \<^verbatim>\<open>text/html\<close>, when that file can be read.
\<close>

theorem unmatched_path_error_page:
  assumes "urlparse_path lib target \<noteq> ''/''"
    and "urlparse_path lib target \<noteq> ''/search''"
    and "\<not> prefix ''/static/'' (urlparse_path lib target)"
    and "fs ''templates/error.html'' = Contents page"
  shows "handle lib fs target =
           Some \<lparr>path = target,
                 wfile = [SendResponse 200, SendHeader ''Content-type'' ''text/html'',
                          EndHeaders, WfileWrite page],
                 opened = [''templates/error.html'']\<rparr>"
  using assms
  by (simp add: handle_def do_GET_def new_handler_def send_html_file_ok html_headers_def)

theorem unmatched_path_error_page_witness:
  "handle lib_std (open_on site) ''/nope'' =
     Some \<lparr>path = ''/nope'',
           wfile = [SendResponse 200, SendHeader ''Content-type'' ''text/html'',
                    EndHeaders, WfileWrite ''<h1>not found</h1>''],
           opened = [''templates/error.html'']\<rparr>"
proof -
  have a: "urlparse_path lib_std ''/nope'' \<noteq> ''/''"
    and b: "urlparse_path lib_std ''/nope'' \<noteq> ''/search''"
    and c: "\<not> prefix ''/static/'' (urlparse_path lib_std ''/nope'')"
    by (simp_all add: std_eval)
  have d: "open_on site ''templates/error.html'' = Contents ''<h1>not found</h1>''"
    by (simp add: std_eval)
  show ?thesis by (rule unmatched_path_error_page
        [where lib = lib_std and fs = "open_on site" and target = "''/nope''", OF a b c d])
qed

subsection \<open>Static files\<close>

text \<open>
  What \<^verbatim>\<open>send_static\<close> serves is the file named by the request target, \<^verbatim>\<open>self.path\<close>,
  without its leading slash. When the parsed path begins with \<^verbatim>\<open>/static/\<close> and that
  file can be read, the answer is the file's bytes with status 200; the Content-type is
  what \<^verbatim>\<open>mimetypes.guess_type\<close> gives for that file path, and
  \<^verbatim>\<open>application/octet-stream\<close> when it gives nothing.
\<close>

lemma send_static_serves_target_file:
  assumes "prefix ''/static/'' (urlparse_path lib target)"
    and "fs (drop 1 target) = Contents content"
  shows "handle lib fs target =
           Some \<lparr>path = target,
                 wfile = [SendResponse 200,
                          SendHeader ''Content-type''
                            (or_default (guess_type lib (drop 1 target)) ''application/octet-stream''),
                          EndHeaders, WfileWrite content],
                 opened = [drop 1 target]\<rparr>
       \<and> (\<forall>m. guess_type lib (drop 1 target) = Some m \<and> m \<noteq> [] \<longrightarrow>
              or_default (guess_type lib (drop 1 target)) ''application/octet-stream'' = m)
       \<and> (guess_type lib (drop 1 target) = None \<longrightarrow>
              or_default (guess_type lib (drop 1 target)) ''application/octet-stream''
                = ''application/octet-stream'')"
proof -
  from assms(1) have "urlparse_path lib target \<noteq> ''/''" "urlparse_path lib target \<noteq> ''/search''"
    by auto
  with assms show ?thesis
    by (simp add: handle_def do_GET_def new_handler_def send_static_ok or_default_def)
qed

lemma send_static_serves_target_file_examples:
  "handle lib_std (open_on site) ''/static/style.css'' =
     Some \<lparr>path = ''/static/style.css'',
           wfile = [SendResponse 200, SendHeader ''Content-type'' ''text/css'',
                    EndHeaders, WfileWrite ''body {}''],
           opened = [''static/style.css'']\<rparr>
   \<and> handle lib_std (open_on site) ''/static/app.js'' =
     Some \<lparr>path = ''/static/app.js'',
           wfile = [SendResponse 200, SendHeader ''Content-type'' ''application/javascript'',
                    EndHeaders, WfileWrite ''console.log(1);''],
           opened = [''static/app.js'']\<rparr>
   \<and> handle lib_std (open_on site) ''/static/unknownext.xyz'' =
     Some \<lparr>path = ''/static/unknownext.xyz'',
           wfile = [SendResponse 200, SendHeader ''Content-type'' ''application/octet-stream'',
                    EndHeaders, WfileWrite ''xyz''],
           opened = [''static/unknownext.xyz'']\<rparr>"
proof -
  have p1: "prefix ''/static/'' (urlparse_path lib_std ''/static/style.css'')"
    and p2: "prefix ''/static/'' (urlparse_path lib_std ''/static/app.js'')"
    and p3: "prefix ''/static/'' (urlparse_path lib_std ''/static/unknownext.xyz'')"
    by (simp_all add: std_eval)
  have f1: "open_on site (drop 1 ''/static/style.css'') = Contents ''body {}''"
    and f2: "open_on site (drop 1 ''/static/app.js'') = Contents ''console.log(1);''"
    and f3: "open_on site (drop 1 ''/static/unknownext.xyz'') = Contents ''xyz''"
    by (simp_all add: std_eval)
  have g1: "guess_type lib_std (drop 1 ''/static/style.css'') = Some ''text/css''"
    and g2: "guess_type lib_std (drop 1 ''/static/app.js'') = Some ''application/javascript''"
    and g3: "guess_type lib_std (drop 1 ''/static/unknownext.xyz'') = None"
    by (simp_all add: std_eval)
  from send_static_serves_target_file
      [where lib = lib_std and fs = "open_on site" and target = "''/static/style.css''", OF p1 f1] g1
  have "handle lib_std (open_on site) ''/static/style.css'' =
     Some \<lparr>path = ''/static/style.css'',
           wfile = [SendResponse 200, SendHeader ''Content-type'' ''text/css'',
                    EndHeaders, WfileWrite ''body {}''],
           opened = [''static/style.css'']\<rparr>"
    by (simp add: or_default_def)
  moreover from send_static_serves_target_file
      [where lib = lib_std and fs = "open_on site" and target = "''/static/app.js''", OF p2 f2] g2
  have "handle lib_std (open_on site) ''/static/app.js'' =
     Some \<lparr>path = ''/static/app.js'',
           wfile = [SendResponse 200, SendHeader ''Content-type'' ''application/javascript'',
                    EndHeaders, WfileWrite ''console.log(1);''],
           opened = [''static/app.js'']\<rparr>"
    by (simp add: or_default_def)
  moreover from send_static_serves_target_file
      [where lib = lib_std and fs = "open_on site" and target = "''/static/unknownext.xyz''", OF p3 f3] g3
  have "handle lib_std (open_on site) ''/static/unknownext.xyz'' =
     Some \<lparr>path = ''/static/unknownext.xyz'',
           wfile = [SendResponse 200, SendHeader ''Content-type'' ''application/octet-stream'',
                    EndHeaders, WfileWrite ''xyz''],
           opened = [''static/unknownext.xyz'']\<rparr>"
    by (simp add: or_default_def)
  ultimately show ?thesis by blast
qed

text \<open>
  Claim C3 at a failing input. The claim names the file by the path: the path with its
  leading slash stripped. For the request target \<^verbatim>\<open>/static/app.js?v=2\<close> the path is
  \<^verbatim>\<open>/static/app.js\<close>, it begins with \<^verbatim>\<open>/static/\<close>, and the file \<^verbatim>\<open>static/app.js\<close> exists and
  can be read. \<^verbatim>\<open>send_static\<close> opens \<^verbatim>\<open>static/app.js?v=2\<close> instead, which fails: with
  \<^verbatim>\<open>error.html\<close> in the project root the answer is the error page with status 404, and
  without it the call does not return. The file's bytes are not served.
\<close>

theorem static_file_with_query_not_served:
  "urlparse_path lib_std ''/static/app.js?v=2'' = ''/static/app.js''
   \<and> prefix ''/static/'' (urlparse_path lib_std ''/static/app.js?v=2'')
   \<and> open_on site_with_root_error (drop 1 (urlparse_path lib_std ''/static/app.js?v=2''))
       = Contents ''console.log(1);''
   \<and> handle lib_std (open_on site_with_root_error) ''/static/app.js?v=2'' =
     Some \<lparr>path = ''/static/app.js?v=2'',
           wfile = [SendResponse 404, SendHeader ''Content-type'' ''text/html'', EndHeaders,
                    WfileWrite ''<h1>root error</h1>''],
           opened = [''static/app.js?v=2'', ''error.html'']\<rparr>
   \<and> open_on site (drop 1 (urlparse_path lib_std ''/static/app.js?v=2''))
       = Contents ''console.log(1);''
   \<and> handle lib_std (open_on site) ''/static/app.js?v=2'' = None"
proof -
  have p: "urlparse_path lib_std ''/static/app.js?v=2'' = ''/static/app.js''"
    by (simp add: std_eval)
  have f: "open_on site_with_root_error (drop 1 ''/static/app.js'') = Contents ''console.log(1);''"
    and f': "open_on site (drop 1 ''/static/app.js'') = Contents ''console.log(1);''"
    by (simp_all add: std_eval)
  have q: "open_on site_with_root_error (drop 1 ''/static/app.js?v=2'') = OpenFails"
    and q': "open_on site (drop 1 ''/static/app.js?v=2'') = OpenFails"
    by (simp_all add: std_eval)
  have e: "open_on site_with_root_error ''error.html'' = Contents ''<h1>root error</h1>''"
    by (simp add: std_eval)
  have e': "\<forall>c. open_on site ''error.html'' \<noteq> Contents c"
    by (simp add: std_eval)
  have d: "send_html_file (open_on site) ''error.html'' 404 h = None" for h
    using e' e' by (rule send_html_file_diverges)
  have one: "handle lib_std (open_on site_with_root_error) ''/static/app.js?v=2'' =
     Some \<lparr>path = ''/static/app.js?v=2'',
           wfile = [SendResponse 404, SendHeader ''Content-type'' ''text/html'', EndHeaders,
                    WfileWrite ''<h1>root error</h1>''],
           opened = [''static/app.js?v=2'', ''error.html'']\<rparr>"
    using p q e
    by (simp add: handle_def do_GET_def Let_def new_handler_def send_static_open_fails
        send_html_file_ok html_headers_def del: urlparse_path_lib_std)
  have two: "handle lib_std (open_on site) ''/static/app.js?v=2'' = None"
    using p q'
    by (simp add: handle_def do_GET_def Let_def new_handler_def send_static_open_fails d
        del: urlparse_path_lib_std)
  from p f f' one two show ?thesis by simp
qed

subsection \<open>One request does not depend on the requests before it\<close>










subsection \<open>The static path is not confined to \<^verbatim>\<open>static/\<close>\<close>

text \<open>
  Claim C10. \<^verbatim>\<open>send_static\<close> opens the request target without its leading slash, as it
  stands: nothing is normalised and nothing checks where the path leads. The request
  \<^verbatim>\<open>/static/../x\<close> begins with \<^verbatim>\<open>/static/\<close> and has a \<^verbatim>\<open>..\<close> segment; on every disk that
  has a file \<^verbatim>\<open>x\<close> in the project root it is answered with status 200 and the bytes of that
  file, which lies outside the \<^verbatim>\<open>static/\<close> directory tree.
\<close>

theorem static_path_escapes_static_tree:
  assumes "map_of d [''x''] = Some content"
  shows "prefix ''/static/'' ''/static/../x''
       \<and> ''..'' \<in> set (split_slash ''/static/../x'')
       \<and> handle lib_std (open_on d) ''/static/../x'' =
           Some \<lparr>path = ''/static/../x'',
                 wfile = [SendResponse 200,
                          SendHeader ''Content-type'' ''application/octet-stream'',
                          EndHeaders, WfileWrite content],
                 opened = [drop 1 ''/static/../x'']\<rparr>
       \<and> normpath (drop 1 ''/static/../x'') = [''x'']
       \<and> \<not> under_static (normpath (drop 1 ''/static/../x''))"
proof -
  have n: "normpath (drop 1 ''/static/../x'') = [''x'']"
    by (simp add: normpath_def)
  have p: "urlparse_path lib_std ''/static/../x'' = ''/static/../x''"
    by (simp add: std_eval)
  have g: "guess_type lib_std (drop 1 ''/static/../x'') = None"
    by (simp add: std_eval)
  from assms n have f: "open_on d (drop 1 ''/static/../x'') = Contents content"
    by (simp add: open_on_def)
  have "handle lib_std (open_on d) ''/static/../x'' =
           Some \<lparr>path = ''/static/../x'',
                 wfile = [SendResponse 200,
                          SendHeader ''Content-type'' ''application/octet-stream'',
                          EndHeaders, WfileWrite content],
                 opened = [drop 1 ''/static/../x'']\<rparr>"
    using p f g
    by (simp add: handle_def do_GET_def new_handler_def send_static_ok or_default_def Let_def
        del: urlparse_path_lib_std guess_type_lib_std)
  moreover have "''..'' \<in> set (split_slash ''/static/../x'')" by simp
  moreover have "\<not> under_static (normpath (drop 1 ''/static/../x''))"
    using n by (simp add: under_static_def)
  ultimately show ?thesis using n by simp
qed

theorem static_path_escapes_static_tree_witness:
  "handle lib_std (open_on site) ''/static/../x'' =
     Some \<lparr>path = ''/static/../x'',
           wfile = [SendResponse 200,
                    SendHeader ''Content-type'' ''application/octet-stream'',
                    EndHeaders, WfileWrite ''outside''],
           opened = [''static/../x'']\<rparr>
   \<and> normpath ''static/../x'' = [''x'']
   \<and> \<not> under_static [''x'']"
proof -
  have "map_of site [''x''] = Some ''outside''" by (simp add: site_def)
  from static_path_escapes_static_tree [OF this] show ?thesis by (simp add: under_static_def)
qed

subsection \<open>The fallback after a failed read\<close>

text \<open>
  Claim C5, as the code has it. Both fallback call sites (line 89 in \<^verbatim>\<open>send_html_file\<close>,
  line 127 in \<^verbatim>\<open>send_static\<close>) are the call \<^verbatim>\<open>send_html_file('error.html', 404)\<close>, and
  \<^verbatim>\<open>send_html_file\<close> opens the name it is given, with no \<^verbatim>\<open>templates/\<close> put in front.
  So on every file system a failed read in either handler continues as
  \<^verbatim>\<open>send_html_file\<close> on the project-root-relative path \<^verbatim>\<open>error.html\<close> with status 404,
  without and with the recursion limit; and when that file can be read, the files opened
  are the failed one and then \<^verbatim>\<open>error.html\<close>, whose bytes are sent after a 404 header
  block. \<^verbatim>\<open>templates/error.html\<close> is resolved by neither call site.
\<close>

theorem both_fallbacks_open_root_error_html:
  "((\<forall>c. fs filename \<noteq> Contents c) \<longrightarrow>
      send_html_file fs filename status self =
        send_html_file fs ''error.html'' 404
          (self\<lparr>wfile := wfile self @ html_headers status,
                opened := opened self @ [filename]\<rparr>)
      \<and> send_html_file_limit (Suc depth) fs filename status self =
        send_html_file_limit depth fs ''error.html'' 404
          (self\<lparr>wfile := wfile self @ html_headers status,
                opened := opened self @ [filename]\<rparr>))
   \<and> (fs (drop 1 (path self)) = OpenFails \<longrightarrow>
      send_static lib fs self =
        send_html_file fs ''error.html'' 404
          (self\<lparr>opened := opened self @ [drop 1 (path self)]\<rparr>)
      \<and> send_static_limit depth lib fs self =
        send_html_file_limit depth fs ''error.html'' 404
          (self\<lparr>opened := opened self @ [drop 1 (path self)]\<rparr>))
   \<and> (fs (drop 1 (path self)) = ReadFails \<longrightarrow>
      send_static lib fs self =
        send_html_file fs ''error.html'' 404
          (self\<lparr>wfile := wfile self @
                     [SendResponse 200,
                      SendHeader ''Content-type''
                        (or_default (guess_type lib (drop 1 (path self)))
                           ''application/octet-stream''),
                      EndHeaders],
                opened := opened self @ [drop 1 (path self)]\<rparr>)
      \<and> send_static_limit depth lib fs self =
        send_html_file_limit depth fs ''error.html'' 404
          (self\<lparr>wfile := wfile self @
                     [SendResponse 200,
                      SendHeader ''Content-type''
                        (or_default (guess_type lib (drop 1 (path self)))
                           ''application/octet-stream''),
                      EndHeaders],
                opened := opened self @ [drop 1 (path self)]\<rparr>))
   \<and> (\<forall>e. fs ''error.html'' = Contents e \<longrightarrow>
        ((\<forall>c. fs filename \<noteq> Contents c) \<longrightarrow>
            send_html_file fs filename status self =
              Some (self\<lparr>wfile := wfile self @ html_headers status @ html_headers 404
                                  @ [WfileWrite e],
                         opened := opened self @ [filename, ''error.html'']\<rparr>))
      \<and> (fs (drop 1 (path self)) = OpenFails \<longrightarrow>
            send_static lib fs self =
              Some (self\<lparr>wfile := wfile self @ html_headers 404 @ [WfileWrite e],
                         opened := opened self @ [drop 1 (path self), ''error.html'']\<rparr>))
      \<and> (fs (drop 1 (path self)) = ReadFails \<longrightarrow>
            send_static lib fs self =
              Some (self\<lparr>wfile := wfile self @
                           [SendResponse 200,
                            SendHeader ''Content-type''
                              (or_default (guess_type lib (drop 1 (path self)))
                                 ''application/octet-stream''),
                            EndHeaders] @ html_headers 404 @ [WfileWrite e],
                         opened := opened self @ [drop 1 (path self), ''error.html'']\<rparr>)))"
proof -
  have html: "send_html_file fs filename status self =
        send_html_file fs ''error.html'' 404
          (self\<lparr>wfile := wfile self @ html_headers status,
                opened := opened self @ [filename]\<rparr>)
      \<and> send_html_file_limit (Suc depth) fs filename status self =
        send_html_file_limit depth fs ''error.html'' 404
          (self\<lparr>wfile := wfile self @ html_headers status,
                opened := opened self @ [filename]\<rparr>)"
    if "\<forall>c. fs filename \<noteq> Contents c"
    using that
      send_html_file_retry [where fs = fs and filename = filename and status = status
        and self = self, OF that]
    by (cases "fs filename") simp_all
  have opn: "send_static lib fs self =
        send_html_file fs ''error.html'' 404
          (self\<lparr>opened := opened self @ [drop 1 (path self)]\<rparr>)
      \<and> send_static_limit depth lib fs self =
        send_html_file_limit depth fs ''error.html'' 404
          (self\<lparr>opened := opened self @ [drop 1 (path self)]\<rparr>)"
    if "fs (drop 1 (path self)) = OpenFails"
    using that by (simp add: send_static_open_fails send_static_limit_def Let_def)
  have rd: "send_static lib fs self =
        send_html_file fs ''error.html'' 404
          (self\<lparr>wfile := wfile self @
                     [SendResponse 200,
                      SendHeader ''Content-type''
                        (or_default (guess_type lib (drop 1 (path self)))
                           ''application/octet-stream''),
                      EndHeaders],
                opened := opened self @ [drop 1 (path self)]\<rparr>)
      \<and> send_static_limit depth lib fs self =
        send_html_file_limit depth fs ''error.html'' 404
          (self\<lparr>wfile := wfile self @
                     [SendResponse 200,
                      SendHeader ''Content-type''
                        (or_default (guess_type lib (drop 1 (path self)))
                           ''application/octet-stream''),
                      EndHeaders],
                opened := opened self @ [drop 1 (path self)]\<rparr>)"
    if "fs (drop 1 (path self)) = ReadFails"
    using that by (simp add: send_static_read_fails send_static_limit_def Let_def)
  have readable: "((\<forall>c. fs filename \<noteq> Contents c) \<longrightarrow>
            send_html_file fs filename status self =
              Some (self\<lparr>wfile := wfile self @ html_headers status @ html_headers 404
                                  @ [WfileWrite e],
                         opened := opened self @ [filename, ''error.html'']\<rparr>))
      \<and> (fs (drop 1 (path self)) = OpenFails \<longrightarrow>
            send_static lib fs self =
              Some (self\<lparr>wfile := wfile self @ html_headers 404 @ [WfileWrite e],
                         opened := opened self @ [drop 1 (path self), ''error.html'']\<rparr>))
      \<and> (fs (drop 1 (path self)) = ReadFails \<longrightarrow>
            send_static lib fs self =
              Some (self\<lparr>wfile := wfile self @
                           [SendResponse 200,
                            SendHeader ''Content-type''
                              (or_default (guess_type lib (drop 1 (path self)))
                                 ''application/octet-stream''),
                            EndHeaders] @ html_headers 404 @ [WfileWrite e],
                         opened := opened self @ [drop 1 (path self), ''error.html'']\<rparr>))"
    if "fs ''error.html'' = Contents e" for e
    using that
    by (simp add: send_html_file_fallback send_static_open_fails send_static_read_fails
        send_html_file_ok)
  from html opn rd readable show ?thesis by blast
qed

theorem both_fallbacks_open_root_error_html_witness:
  "send_html_file (open_on site_with_root_error) ''templates/missing.html'' 200
     (new_handler ''/missing'') =
     Some \<lparr>path = ''/missing'',
           wfile = html_headers 200 @ html_headers 404 @ [WfileWrite ''<h1>root error</h1>''],
           opened = [''templates/missing.html'', ''error.html'']\<rparr>
   \<and> send_static lib_std (open_on site_with_root_error) (new_handler ''/static/missing.css'') =
     Some \<lparr>path = ''/static/missing.css'',
           wfile = html_headers 404 @ [WfileWrite ''<h1>root error</h1>''],
           opened = [''static/missing.css'', ''error.html'']\<rparr>
   \<and> send_static_limit 2 lib_std (open_on site) (new_handler ''/static/missing.css'') =
     RecursionError
       \<lparr>path = ''/static/missing.css'',
        wfile = html_headers 404 @ html_headers 404,
        opened = [''static/missing.css'', ''error.html'', ''error.html'']\<rparr>"
proof -
  have e: "open_on site_with_root_error ''error.html'' = Contents ''<h1>root error</h1>''"
    by (simp add: std_eval)
  have m: "\<forall>c. open_on site_with_root_error ''templates/missing.html'' \<noteq> Contents c"
    by (simp add: std_eval)
  have s: "open_on site_with_root_error (drop 1 (path (new_handler ''/static/missing.css'')))
             = OpenFails"
    by (simp add: std_eval)
  have s': "open_on site (drop 1 (path (new_handler ''/static/missing.css''))) = OpenFails"
    by (simp add: std_eval)
  have e': "open_on site ''error.html'' = OpenFails"
    by (simp add: std_eval)
  from both_fallbacks_open_root_error_html
         [where fs = "open_on site_with_root_error" and filename = "''templates/missing.html''"
            and status = 200 and self = "new_handler ''/missing''" and lib = lib_std
            and depth = 0] e m
  have "send_html_file (open_on site_with_root_error) ''templates/missing.html'' 200
     (new_handler ''/missing'') =
     Some ((new_handler ''/missing'')
        \<lparr>wfile := wfile (new_handler ''/missing'') @ html_headers 200 @ html_headers 404
                    @ [WfileWrite ''<h1>root error</h1>''],
         opened := opened (new_handler ''/missing'')
                    @ [''templates/missing.html'', ''error.html'']\<rparr>)"
    by blast
  then have "send_html_file (open_on site_with_root_error) ''templates/missing.html'' 200
     (new_handler ''/missing'') =
     Some \<lparr>path = ''/missing'',
           wfile = html_headers 200 @ html_headers 404 @ [WfileWrite ''<h1>root error</h1>''],
           opened = [''templates/missing.html'', ''error.html'']\<rparr>"
    by (simp add: new_handler_def)
  moreover from both_fallbacks_open_root_error_html
         [where fs = "open_on site_with_root_error" and lib = lib_std
            and self = "new_handler ''/static/missing.css''" and filename = "''x''"
            and status = 200 and depth = 0] e s
  have "send_static lib_std (open_on site_with_root_error) (new_handler ''/static/missing.css'') =
     Some ((new_handler ''/static/missing.css'')
        \<lparr>wfile := wfile (new_handler ''/static/missing.css'') @ html_headers 404
                    @ [WfileWrite ''<h1>root error</h1>''],
         opened := opened (new_handler ''/static/missing.css'')
                    @ [drop 1 (path (new_handler ''/static/missing.css'')), ''error.html'']\<rparr>)"
    by blast
  then have "send_static lib_std (open_on site_with_root_error) (new_handler ''/static/missing.css'') =
     Some \<lparr>path = ''/static/missing.css'',
           wfile = html_headers 404 @ [WfileWrite ''<h1>root error</h1>''],
           opened = [''static/missing.css'', ''error.html'']\<rparr>"
    by (simp add: new_handler_def)
  moreover from both_fallbacks_open_root_error_html
         [where fs = "open_on site" and lib = lib_std and depth = 2
            and self = "new_handler ''/static/missing.css''" and filename = "''x''"
            and status = 200] s'
  have "send_static_limit 2 lib_std (open_on site) (new_handler ''/static/missing.css'') =
        send_html_file_limit 2 (open_on site) ''error.html'' 404
          ((new_handler ''/static/missing.css'')
             \<lparr>opened := opened (new_handler ''/static/missing.css'')
                          @ [drop 1 (path (new_handler ''/static/missing.css''))]\<rparr>)"
    by blast
  then have "send_static_limit 2 lib_std (open_on site) (new_handler ''/static/missing.css'') =
     RecursionError
       \<lparr>path = ''/static/missing.css'',
        wfile = html_headers 404 @ html_headers 404,
        opened = [''static/missing.css'', ''error.html'', ''error.html'']\<rparr>"
    using e' by (simp add: new_handler_def numeral_2_eq_2)
  ultimately show ?thesis by blast
qed

text \<open>
  Claim C5, as stated, says that the fallback of the static-file handler resolves
  \<^verbatim>\<open>templates/error.html\<close>. On a disk that has both \<^verbatim>\<open>templates/error.html\<close> and
  \<^verbatim>\<open>error.html\<close>, with different contents, a request for a missing static file opens
  \<^verbatim>\<open>error.html\<close> and sends its bytes.
\<close>

theorem static_fallback_counterexample:
  "handle lib_std (open_on site_with_root_error) ''/static/missing.css'' =
     Some \<lparr>path = ''/static/missing.css'',
           wfile = [SendResponse 404, SendHeader ''Content-type'' ''text/html'', EndHeaders,
                    WfileWrite ''<h1>root error</h1>''],
           opened = [''static/missing.css'', ''error.html'']\<rparr>
   \<and> open_on site_with_root_error ''templates/error.html'' = Contents ''<h1>not found</h1>''
   \<and> ''templates/error.html'' \<notin> set [''static/missing.css'', ''error.html'']"
proof -
  have p: "urlparse_path lib_std ''/static/missing.css'' = ''/static/missing.css''"
    by (simp add: std_eval)
  have s: "open_on site_with_root_error (drop 1 ''/static/missing.css'') = OpenFails"
    by (simp add: std_eval)
  have e: "open_on site_with_root_error ''error.html'' = Contents ''<h1>root error</h1>''"
    by (simp add: std_eval)
  have t: "open_on site_with_root_error ''templates/error.html'' = Contents ''<h1>not found</h1>''"
    by (simp add: std_eval)
  have "handle lib_std (open_on site_with_root_error) ''/static/missing.css'' =
     Some \<lparr>path = ''/static/missing.css'',
           wfile = [SendResponse 404, SendHeader ''Content-type'' ''text/html'', EndHeaders,
                    WfileWrite ''<h1>root error</h1>''],
           opened = [''static/missing.css'', ''error.html'']\<rparr>"
    using p s e
    by (simp add: handle_def do_GET_def Let_def new_handler_def send_static_open_fails
        send_html_file_ok html_headers_def del: urlparse_path_lib_std)
  with t show ?thesis by simp
qed

subsection \<open>Status 200 is sent before the file is opened\<close>

text \<open>
  Claim C1 at a failing input. \<^verbatim>\<open>send_html_file\<close> sends the status line and the headers
  (lines 71 to 78) before it opens the file (line 83). When \<^verbatim>\<open>templates/index.html\<close> or
  \<^verbatim>\<open>templates/search.html\<close> is missing, the status line already sent is 200; the fallback
  then writes a second status line, 404, after the first header block has ended. The
  response does not have status 404.
\<close>

theorem missing_page_status_200_before_404:
  "handle lib_std (open_on only_root_error) ''/'' =
     Some \<lparr>path = ''/'',
           wfile = [SendResponse 200, SendHeader ''Content-type'' ''text/html'', EndHeaders,
                    SendResponse 404, SendHeader ''Content-type'' ''text/html'', EndHeaders,
                    WfileWrite ''<h1>root error</h1>''],
           opened = [''templates/index.html'', ''error.html'']\<rparr>
   \<and> handle lib_std (open_on only_root_error) ''/search'' =
     Some \<lparr>path = ''/search'',
           wfile = [SendResponse 200, SendHeader ''Content-type'' ''text/html'', EndHeaders,
                    SendResponse 404, SendHeader ''Content-type'' ''text/html'', EndHeaders,
                    WfileWrite ''<h1>root error</h1>''],
           opened = [''templates/search.html'', ''error.html'']\<rparr>"
proof -
  have p: "urlparse_path lib_std ''/'' = ''/''" "urlparse_path lib_std ''/search'' = ''/search''"
    by (simp_all add: std_eval)
  have f: "\<forall>c. open_on only_root_error ''templates/index.html'' \<noteq> Contents c"
    "\<forall>c. open_on only_root_error ''templates/search.html'' \<noteq> Contents c"
    by (simp_all add: std_eval)
  have e: "open_on only_root_error ''error.html'' = Contents ''<h1>root error</h1>''"
    by (simp add: std_eval)
  show ?thesis
    using p
    by (simp add: handle_def do_GET_def Let_def new_handler_def html_headers_def
        send_html_file_fallback [OF f(1) e] send_html_file_fallback [OF f(2) e]
        del: urlparse_path_lib_std)
qed

text \<open>
  Claim C4 at a failing input. For a path that matches no route, with
  \<^verbatim>\<open>templates/error.html\<close> missing, the call writes two status lines, two Content-type
  headers and two header terminators before the body: not one response.
\<close>

theorem fallback_writes_two_header_blocks:
  "handle lib_std (open_on only_root_error) ''/nope'' =
     Some \<lparr>path = ''/nope'',
           wfile = [SendResponse 200, SendHeader ''Content-type'' ''text/html'', EndHeaders,
                    SendResponse 404, SendHeader ''Content-type'' ''text/html'', EndHeaders,
                    WfileWrite ''<h1>root error</h1>''],
           opened = [''templates/error.html'', ''error.html'']\<rparr>
   \<and> length (filter (\<lambda>c. c = SendResponse 200 \<or> c = SendResponse 404)
        [SendResponse 200, SendHeader ''Content-type'' ''text/html'', EndHeaders,
         SendResponse 404, SendHeader ''Content-type'' ''text/html'', EndHeaders,
         WfileWrite ''<h1>root error</h1>'']) = 2"
proof -
  have p: "urlparse_path lib_std ''/nope'' = ''/nope''"
    by (simp add: std_eval)
  have f: "\<forall>c. open_on only_root_error ''templates/error.html'' \<noteq> Contents c"
    by (simp add: std_eval)
  have e: "open_on only_root_error ''error.html'' = Contents ''<h1>root error</h1>''"
    by (simp add: std_eval)
  show ?thesis
    using p
    by (simp add: handle_def do_GET_def Let_def new_handler_def html_headers_def
        send_html_file_fallback [OF f e] del: urlparse_path_lib_std)
qed

subsection \<open>The query string reaches the file name\<close>

text \<open>
  Claim C6 at a failing input. \<^verbatim>\<open>do_GET\<close> routes on the parsed path, but
  \<^verbatim>\<open>send_static\<close> builds the file name from \<^verbatim>\<open>self.path\<close>, the whole request target. The
  targets \<^verbatim>\<open>/static/style.css\<close> and \<^verbatim>\<open>/static/style.css?v=1\<close> have the same parsed path;
  the first is answered with the style sheet and status 200, the second opens the file
  name \<^verbatim>\<open>static/style.css?v=1\<close>, fails and is answered with the error page and 404.
\<close>

theorem query_string_changes_static_response:
  "urlparse_path lib_std ''/static/style.css?v=1'' = urlparse_path lib_std ''/static/style.css''
   \<and> handle lib_std (open_on site_with_root_error) ''/static/style.css'' =
     Some \<lparr>path = ''/static/style.css'',
           wfile = [SendResponse 200, SendHeader ''Content-type'' ''text/css'', EndHeaders,
                    WfileWrite ''body {}''],
           opened = [''static/style.css'']\<rparr>
   \<and> handle lib_std (open_on site_with_root_error) ''/static/style.css?v=1'' =
     Some \<lparr>path = ''/static/style.css?v=1'',
           wfile = [SendResponse 404, SendHeader ''Content-type'' ''text/html'', EndHeaders,
                    WfileWrite ''<h1>root error</h1>''],
           opened = [''static/style.css?v=1'', ''error.html'']\<rparr>"
proof -
  have p: "urlparse_path lib_std ''/static/style.css'' = ''/static/style.css''"
    "urlparse_path lib_std ''/static/style.css?v=1'' = ''/static/style.css''"
    by (simp_all add: std_eval)
  have f: "open_on site_with_root_error (drop 1 ''/static/style.css'') = Contents ''body {}''"
    by (simp add: std_eval)
  have g: "guess_type lib_std (drop 1 ''/static/style.css'') = Some ''text/css''"
    by (simp add: std_eval)
  have q: "open_on site_with_root_error (drop 1 ''/static/style.css?v=1'') = OpenFails"
    by (simp add: std_eval)
  have e: "open_on site_with_root_error ''error.html'' = Contents ''<h1>root error</h1>''"
    by (simp add: std_eval)
  have one: "handle lib_std (open_on site_with_root_error) ''/static/style.css'' =
     Some \<lparr>path = ''/static/style.css'',
           wfile = [SendResponse 200, SendHeader ''Content-type'' ''text/css'', EndHeaders,
                    WfileWrite ''body {}''],
           opened = [''static/style.css'']\<rparr>"
    using p(1) f g
    by (simp add: handle_def do_GET_def Let_def new_handler_def send_static_ok or_default_def
        del: urlparse_path_lib_std guess_type_lib_std)
  have two: "handle lib_std (open_on site_with_root_error) ''/static/style.css?v=1'' =
     Some \<lparr>path = ''/static/style.css?v=1'',
           wfile = [SendResponse 404, SendHeader ''Content-type'' ''text/html'', EndHeaders,
                    WfileWrite ''<h1>root error</h1>''],
           opened = [''static/style.css?v=1'', ''error.html'']\<rparr>"
    using p(2) q e
    by (simp add: handle_def do_GET_def Let_def new_handler_def send_static_open_fails
        send_html_file_ok html_headers_def del: urlparse_path_lib_std)
  from p one two show ?thesis by simp
qed

subsection \<open>The fallback of the fallback\<close>

text \<open>A call that returns within the recursion limit returns the same handler without
  it, and a call that returns at all needs no more than two nested calls.\<close>

lemma send_html_file_limit_returned:
  "send_html_file_limit depth fs filename status self = Returned r \<Longrightarrow>
   send_html_file fs filename status self = Some r"
proof (induction depth arbitrary: filename status self)
  case 0
  then show ?case by simp
next
  case (Suc depth)
  show ?case
  proof (cases "fs filename")
    case (Contents c)
    with Suc.prems show ?thesis by (simp add: send_html_file_ok)
  next
    case OpenFails
    with Suc.prems Suc.IH show ?thesis by (simp add: send_html_file_retry)
  next
    case ReadFails
    with Suc.prems Suc.IH show ?thesis by (simp add: send_html_file_retry)
  qed
qed

lemma send_html_file_returns_within_two:
  assumes "send_html_file fs filename status self = Some r"
  shows "send_html_file_limit 2 fs filename status self = Returned r"
proof (cases "\<exists>c. fs filename = Contents c")
  case True
  then obtain c where "fs filename = Contents c" ..
  with assms show ?thesis
    by (simp add: send_html_file_ok numeral_2_eq_2)
next
  case False
  with send_html_file_returns_only_if [OF assms]
  obtain e where e: "fs ''error.html'' = Contents e" by blast
  from False have "\<forall>c. fs filename \<noteq> Contents c" by simp
  from send_html_file_fallback [OF this e, of status self] assms False
  show ?thesis
    by (cases "fs filename") (simp_all add: e numeral_2_eq_2)
qed

lemma send_html_file_limit_retries:
  assumes "\<forall>c. fs ''error.html'' \<noteq> Contents c"
  shows "send_html_file_limit depth fs ''error.html'' 404 self =
         RecursionError
           (self\<lparr>wfile := wfile self @ concat (replicate depth (html_headers 404)),
                 opened := opened self @ replicate depth ''error.html''\<rparr>)"
proof (induction depth arbitrary: self)
  case 0
  show ?case by simp
next
  case (Suc depth)
  from assms show ?case
    by (cases "fs ''error.html''") (simp_all add: Suc.IH)
qed

text \<open>
  Claim C7 at a failing input. On the layout of the specification there is no
  \<^verbatim>\<open>error.html\<close> in the project root. A request for a missing static file then calls
  \<^verbatim>\<open>send_html_file('error.html', 404)\<close>, whose own fallback is the same call again. Without
  a bound on the stack the call never returns. With a recursion limit it ends in
  \<^verbatim>\<open>RecursionError\<close> only when the limit is used up, after as many 404 header blocks and as
  many attempts to open \<^verbatim>\<open>error.html\<close> as the limit allows.
\<close>

theorem nested_failure_never_returns:
  "handle lib_std (open_on site) ''/static/missing.css'' = None
   \<and> send_html_file (open_on site) ''error.html'' 404 self = None
   \<and> (\<forall>depth. send_html_file_limit depth (open_on site) ''error.html'' 404 self =
          RecursionError
            (self\<lparr>wfile := wfile self @ concat (replicate depth (html_headers 404)),
                  opened := opened self @ replicate depth ''error.html''\<rparr>))"
proof -
  have e: "\<forall>c. open_on site ''error.html'' \<noteq> Contents c"
    by (simp add: std_eval)
  have p: "urlparse_path lib_std ''/static/missing.css'' = ''/static/missing.css''"
    by (simp add: std_eval)
  have s: "open_on site (drop 1 ''/static/missing.css'') = OpenFails"
    by (simp add: std_eval)
  have d: "send_html_file (open_on site) ''error.html'' 404 h = None" for h
    using e e by (rule send_html_file_diverges)
  have "handle lib_std (open_on site) ''/static/missing.css'' = None"
    using p s
    by (simp add: handle_def do_GET_def Let_def new_handler_def send_static_open_fails d
        del: urlparse_path_lib_std)
  moreover have "\<forall>depth. send_html_file_limit depth (open_on site) ''error.html'' 404 self =
          RecursionError
            (self\<lparr>wfile := wfile self @ concat (replicate depth (html_headers 404)),
                  opened := opened self @ replicate depth ''error.html''\<rparr>)"
    using send_html_file_limit_retries [where fs = "open_on site" and self = self, OF e]
    by blast
  ultimately show ?thesis using d by simp
qed

end
